theory Spec2Isabelle
  imports Main
begin

section \<open>The background-sync queue store (packages/sync/src/store.ts)\<close>

subsection \<open>Entries\<close>

text \<open>
  An entry handed to the facade is a JavaScript object whose \<open>id\<close> property may be
  absent (\<open>UnidentifiedQueueStoreEntry\<close>); an entry read back from the database always
  carries its key (\<open>BackgroundSyncQueueStoreEntry\<close>). The request snapshot is opaque to
  the store, hence the type parameter. The field \<open>id\<close> is written \<open>entry_id\<close> and
  \<open>stored_id\<close>, since \<open>id\<close> is the identity function of HOL.
\<close>

record 'p UnidentifiedQueueStoreEntry =
  entry_id :: "int option"
  queueName :: string
  payload :: 'p

record 'p BackgroundSyncQueueStoreEntry =
  stored_id :: int
  stored_queueName :: string
  stored_payload :: 'p

datatype storage_error = StorageError

subsection \<open>The database behind the facade (db.js)\<close>

text \<open>
  Modelled from the spec: the class \<open>BackgroundSyncQueueDb\<close> of \<open>db.js\<close> is not among
  the sources. Its state is the object store, kept in ascending key order as a key
  cursor would traverse it, together with the counter of the key generator
  (the last id issued).
\<close>

record 'p BackgroundSyncQueueDb =
  rows :: "'p BackgroundSyncQueueStoreEntry list"
  lastId :: int

text \<open>
  Modelled from the spec: \<open>addEntry\<close> of \<open>db.js\<close>. An entry without id receives the
  next integer above every id issued so far; an entry with an id keeps it verbatim.
  A key that is already present aborts the transaction (\<open>StorageError\<close>).
\<close>

definition addEntry ::
  "'p UnidentifiedQueueStoreEntry \<Rightarrow> 'p BackgroundSyncQueueDb \<Rightarrow>
   storage_error + 'p BackgroundSyncQueueDb" where
  "addEntry entry db =
     (let k = (case entry_id entry of None \<Rightarrow> lastId db + 1 | Some i \<Rightarrow> i);
          row = \<lparr>stored_id = k, stored_queueName = queueName entry,
                 stored_payload = payload entry\<rparr>
      in if k \<in> set (map stored_id (rows db)) then Inl StorageError
         else Inr (db\<lparr>rows := insort_key stored_id row (rows db),
                        lastId := max (lastId db) k\<rparr>))"

text \<open>
  Modelled from the spec: \<open>getFirstEntryId\<close> of \<open>db.js\<close>, the smallest id stored
  across all queue names, or none when the store is empty.
\<close>

definition getFirstEntryId :: "'p BackgroundSyncQueueDb \<Rightarrow> int option" where
  "getFirstEntryId db = (case rows db of [] \<Rightarrow> None | r # _ \<Rightarrow> Some (stored_id r))"

text \<open>
  Modelled from the spec: \<open>getAllEntriesByQueueName\<close> of \<open>db.js\<close>, all entries whose
  queue name matches, in ascending id order.
\<close>

definition getAllEntriesByQueueName ::
  "string \<Rightarrow> 'p BackgroundSyncQueueDb \<Rightarrow> 'p BackgroundSyncQueueStoreEntry list" where
  "getAllEntriesByQueueName name db = filter (\<lambda>r. stored_queueName r = name) (rows db)"

text \<open>
  Modelled from the spec: \<open>getFirstEntryByQueueName\<close> of \<open>db.js\<close>, the entry with the
  least id among those whose queue name matches, or none.
\<close>

definition getFirstEntryByQueueName ::
  "string \<Rightarrow> 'p BackgroundSyncQueueDb \<Rightarrow> 'p BackgroundSyncQueueStoreEntry option" where
  "getFirstEntryByQueueName name db =
     (case getAllEntriesByQueueName name db of [] \<Rightarrow> None | r # _ \<Rightarrow> Some r)"

text \<open>
  Modelled from the spec: \<open>getLastEntryByQueueName\<close> of \<open>db.js\<close>, the entry with the
  greatest id among those whose queue name matches, or none.
\<close>

definition getLastEntryByQueueName ::
  "string \<Rightarrow> 'p BackgroundSyncQueueDb \<Rightarrow> 'p BackgroundSyncQueueStoreEntry option" where
  "getLastEntryByQueueName name db =
     (case rev (getAllEntriesByQueueName name db) of [] \<Rightarrow> None | r # _ \<Rightarrow> Some r)"

text \<open>
  Modelled from the spec: \<open>getEntryCountByQueueName\<close> of \<open>db.js\<close>, the number of
  entries whose queue name matches.
\<close>

definition getEntryCountByQueueName :: "string \<Rightarrow> 'p BackgroundSyncQueueDb \<Rightarrow> nat" where
  "getEntryCountByQueueName name db = length (getAllEntriesByQueueName name db)"

text \<open>
  Modelled from the spec: \<open>deleteEntry\<close> of \<open>db.js\<close> removes the row with the given
  id if it is present and does nothing otherwise.
\<close>

definition db_deleteEntry :: "int \<Rightarrow> 'p BackgroundSyncQueueDb \<Rightarrow> 'p BackgroundSyncQueueDb" where
  "db_deleteEntry k db = db\<lparr>rows := filter (\<lambda>r. stored_id r \<noteq> k) (rows db)\<rparr>"

subsection \<open>The facade \<open>BackgroundSyncQueueStore\<close>\<close>

text \<open>
  A facade instance is its queue name; the database is shared by all instances, so its
  state is passed in and returned. \<open>pushEntry\<close> and \<open>unshiftEntry\<close> write to the
  properties of the object they are given before they await the database: the first
  component of their result is that object as the caller finds it afterwards, the
  second is the outcome of \<open>addEntry\<close>, which stores a copy.

  The test \<open>if (firstId)\<close> is JavaScript truthiness: it fails for \<open>undefined\<close> and
  for the number 0. The private method \<open>_removeEntry\<close> is written \<open>removeEntry\<close>, and
  \<open>size\<close> is written \<open>size_q\<close>.
\<close>

definition truthy :: "int option \<Rightarrow> bool" where
  "truthy v = (case v of None \<Rightarrow> False | Some n \<Rightarrow> n \<noteq> 0)"

definition pushEntry ::
  "string \<Rightarrow> 'p UnidentifiedQueueStoreEntry \<Rightarrow> 'p BackgroundSyncQueueDb \<Rightarrow>
   'p UnidentifiedQueueStoreEntry \<times> (storage_error + 'p BackgroundSyncQueueDb)" where
  "pushEntry qname entry db =
     (let entry1 = entry\<lparr>entry_id := None\<rparr>;
          entry2 = entry1\<lparr>queueName := qname\<rparr>
      in (entry2, addEntry entry2 db))"

definition unshiftEntry ::
  "string \<Rightarrow> 'p UnidentifiedQueueStoreEntry \<Rightarrow> 'p BackgroundSyncQueueDb \<Rightarrow>
   'p UnidentifiedQueueStoreEntry \<times> (storage_error + 'p BackgroundSyncQueueDb)" where
  "unshiftEntry qname entry db =
     (let firstId = getFirstEntryId db;
          entry1 = (if truthy firstId
                    then entry\<lparr>entry_id := map_option (\<lambda>f. f - 1) firstId\<rparr>
                    else entry\<lparr>entry_id := None\<rparr>);
          entry2 = entry1\<lparr>queueName := qname\<rparr>
      in (entry2, addEntry entry2 db))"

definition deleteEntry :: "int \<Rightarrow> 'p BackgroundSyncQueueDb \<Rightarrow> 'p BackgroundSyncQueueDb" where
  "deleteEntry k db = db_deleteEntry k db"

definition removeEntry ::
  "'p BackgroundSyncQueueStoreEntry option \<Rightarrow> 'p BackgroundSyncQueueDb \<Rightarrow>
   'p BackgroundSyncQueueStoreEntry option \<times> 'p BackgroundSyncQueueDb" where
  "removeEntry entry db =
     (case entry of
        Some e \<Rightarrow> (entry, deleteEntry (stored_id e) db)
      | None \<Rightarrow> (entry, db))"

definition popEntry ::
  "string \<Rightarrow> 'p BackgroundSyncQueueDb \<Rightarrow>
   'p BackgroundSyncQueueStoreEntry option \<times> 'p BackgroundSyncQueueDb" where
  "popEntry qname db = removeEntry (getLastEntryByQueueName qname db) db"

definition shiftEntry ::
  "string \<Rightarrow> 'p BackgroundSyncQueueDb \<Rightarrow>
   'p BackgroundSyncQueueStoreEntry option \<times> 'p BackgroundSyncQueueDb" where
  "shiftEntry qname db = removeEntry (getFirstEntryByQueueName qname db) db"

definition getAll ::
  "string \<Rightarrow> 'p BackgroundSyncQueueDb \<Rightarrow> 'p BackgroundSyncQueueStoreEntry list" where
  "getAll qname db = getAllEntriesByQueueName qname db"

definition size_q :: "string \<Rightarrow> 'p BackgroundSyncQueueDb \<Rightarrow> nat" where
  "size_q qname db = getEntryCountByQueueName qname db"

text \<open>
  Sequences of calls on one facade. Each call is awaited before the next is made; a
  rejected call ends the sequence with its error, as an uncaught rejection would.
\<close>

datatype 'p call =
    PushEntry "'p UnidentifiedQueueStoreEntry"
  | UnshiftEntry "'p UnidentifiedQueueStoreEntry"
  | PopEntry
  | ShiftEntry
  | GetAll
  | Size
  | DeleteEntry int

datatype 'p reply =
    Void
  | Removed "'p BackgroundSyncQueueStoreEntry option"
  | Entries "'p BackgroundSyncQueueStoreEntry list"
  | Count nat

fun do_call ::
  "string \<Rightarrow> 'p call \<Rightarrow> 'p BackgroundSyncQueueDb \<Rightarrow>
   storage_error + ('p reply \<times> 'p BackgroundSyncQueueDb)" where
  "do_call qname (PushEntry e) db = map_sum (\<lambda>x. x) (Pair Void) (snd (pushEntry qname e db))"
| "do_call qname (UnshiftEntry e) db = map_sum (\<lambda>x. x) (Pair Void) (snd (unshiftEntry qname e db))"
| "do_call qname PopEntry db = Inr (apfst Removed (popEntry qname db))"
| "do_call qname ShiftEntry db = Inr (apfst Removed (shiftEntry qname db))"
| "do_call qname GetAll db = Inr (Entries (getAll qname db), db)"
| "do_call qname Size db = Inr (Count (size_q qname db), db)"
| "do_call qname (DeleteEntry k) db = Inr (Void, deleteEntry k db)"

fun do_calls ::
  "string \<Rightarrow> 'p call list \<Rightarrow> 'p BackgroundSyncQueueDb \<Rightarrow>
   storage_error + ('p reply list \<times> 'p BackgroundSyncQueueDb)" where
  "do_calls qname [] db = Inr ([], db)"
| "do_calls qname (c # cs) db =
     (case do_call qname c db of
        Inl err \<Rightarrow> Inl err
      | Inr (r, db1) \<Rightarrow>
          (case do_calls qname cs db1 of
             Inl err \<Rightarrow> Inl err
           | Inr (rs, db2) \<Rightarrow> Inr (r # rs, db2)))"

text \<open>
  The states the database can be in: rows in strictly ascending key order, and no key
  above the key generator's counter. The empty store is such a state, and every
  operation of the facade leads from such a state to such a state.
\<close>

definition wf_db :: "'p BackgroundSyncQueueDb \<Rightarrow> bool" where
  "wf_db db = (sorted_wrt (<) (map stored_id (rows db)) \<and>
               list_all (\<lambda>r. stored_id r \<le> lastId db) (rows db))"

definition empty_db :: "'p BackgroundSyncQueueDb" where
  "empty_db = \<lparr>rows = [], lastId = 0\<rparr>"

subsection \<open>Example values\<close>

text \<open>
  Entries as a caller may pass them, and the database as it stands after
  \<open>pushEntry\<close> followed by \<open>unshiftEntry\<close> on a fresh store: the pushed entry has
  id 1 and the entry put before it has id 0.
\<close>

definition entry_a :: "string UnidentifiedQueueStoreEntry" where
  "entry_a = \<lparr>entry_id = Some 7, queueName = ''other'', payload = ''POST /a''\<rparr>"

definition entry_b :: "string UnidentifiedQueueStoreEntry" where
  "entry_b = \<lparr>entry_id = None, queueName = '''', payload = ''POST /b''\<rparr>"

definition entry_c :: "string UnidentifiedQueueStoreEntry" where
  "entry_c = \<lparr>entry_id = None, queueName = '''', payload = ''POST /c''\<rparr>"

definition db_zero :: "string \<Rightarrow> string BackgroundSyncQueueDb" where
  "db_zero qname =
     \<lparr>rows = [\<lparr>stored_id = 0, stored_queueName = qname, stored_payload = ''POST /b''\<rparr>,
              \<lparr>stored_id = 1, stored_queueName = qname, stored_payload = ''POST /a''\<rparr>],
      lastId = 1\<rparr>"

section \<open>The network-first strategy (packages/sw/src/cache/NetworkFirst.ts)\<close>

subsection \<open>Values of the platform\<close>

text \<open>
  A JavaScript number is an integer here, or one of the three values that are not
  finite; fractions are left out. \<open>number_toString\<close> is the conversion a template
  literal and \<open>toString()\<close> apply.
\<close>

datatype number = Num int | Infinity | NegInfinity | NaN

fun number_times :: "number \<Rightarrow> int \<Rightarrow> number" where
  "number_times (Num n) k = Num (n * k)"
| "number_times Infinity k = (if 0 < k then Infinity else if k < 0 then NegInfinity else NaN)"
| "number_times NegInfinity k = (if 0 < k then NegInfinity else if k < 0 then Infinity else NaN)"
| "number_times NaN k = NaN"

function digits :: "nat \<Rightarrow> string" where
  "digits n =
     (if n < 10 then [''0123456789'' ! n]
      else digits (n div 10) @ [''0123456789'' ! (n mod 10)])"
  by pat_completeness auto
termination
  by (relation "measure (\<lambda>n. n)") auto

declare digits.simps [simp del]

fun number_toString :: "number \<Rightarrow> string" where
  "number_toString (Num n) = (if n < 0 then ''-'' @ digits (nat (- n)) else digits (nat n))"
| "number_toString Infinity = ''Infinity''"
| "number_toString NegInfinity = ''-Infinity''"
| "number_toString NaN = ''NaN''"

text \<open>
  An error object is its class and, where the program chose it, its message. The
  program itself only constructs \<open>Error\<close>; the other classes are thrown by the
  platform (a failed fetch, the \<open>Response\<close> constructor, the cache storage).
\<close>

datatype error = Error string | TypeError | RangeError | DOMException string

fun error_class :: "error \<Rightarrow> string" where
  "error_class (Error m) = ''Error''"
| "error_class TypeError = ''TypeError''"
| "error_class RangeError = ''RangeError''"
| "error_class (DOMException n) = ''DOMException''"

text \<open>
  A promise is the moment at which it settles, a position in the order in which the
  event loop runs its tasks, and how it settles; \<open>None\<close> is a promise that stays
  pending for ever. \<open>Promise.race\<close> settles as the promise that settles first; of two
  promises that are settled at the same moment the one listed first wins.
\<close>

type_synonym 'a promise = "(nat \<times> (error + 'a)) option"

fun race :: "'a promise \<Rightarrow> 'a promise \<Rightarrow> 'a promise" where
  "race None q = q"
| "race (Some p) None = Some p"
| "race (Some (t1, r1)) (Some (t2, r2)) = (if t1 \<le> t2 then Some (t1, r1) else Some (t2, r2))"

record request =
  url :: string
  http_method :: string

type_synonym header_list = "(string \<times> string) list"

record response =
  status :: int
  statusText :: string
  headers :: header_list
  body :: "string option"

text \<open>
  \<open>Headers.get\<close> compares names without regard to ASCII case and joins the values of
  all headers of that name with a comma and a space; it returns \<open>null\<close> when there is
  none. \<open>Headers.append\<close> adds a header at the end.
\<close>

definition ascii_lower :: "char \<Rightarrow> char" where
  "ascii_lower c =
     (case map_of (zip ''ABCDEFGHIJKLMNOPQRSTUVWXYZ'' ''abcdefghijklmnopqrstuvwxyz'') c of
        None \<Rightarrow> c
      | Some l \<Rightarrow> l)"

fun join :: "string \<Rightarrow> string list \<Rightarrow> string" where
  "join sep [] = []"
| "join sep [v] = v"
| "join sep (v # w # vs) = v @ sep @ join sep (w # vs)"

definition Headers_get :: "header_list \<Rightarrow> string \<Rightarrow> string option" where
  "Headers_get hs name =
     (let vs = map snd (filter (\<lambda>h. map ascii_lower (fst h) = map ascii_lower name) hs)
      in if vs = [] then None else Some (join '', '' vs))"

definition Headers_append :: "header_list \<Rightarrow> string \<Rightarrow> string \<Rightarrow> header_list" where
  "Headers_append hs name v = hs @ [(name, v)]"

text \<open>
  The constructor \<open>new Response(body, {status, statusText, headers})\<close> throws a
  \<open>RangeError\<close> when the status is outside 200 to 599, and a \<open>TypeError\<close> when a body is
  given together with a status that allows none (204, 205, 304). A response that
  \<open>fetch\<close> delivered can have status 0: that is the status of an opaque response, the
  answer to a cross-origin request made in \<open>no-cors\<close> mode.
\<close>

definition new_Response ::
  "string option \<Rightarrow> int \<Rightarrow> string \<Rightarrow> header_list \<Rightarrow> error + response" where
  "new_Response b st stText hs =
     (if st < 200 \<or> 599 < st then Inl RangeError
      else if b \<noteq> None \<and> st \<in> {204, 205, 304} then Inl TypeError
      else Inr \<lparr>status = st, statusText = stText, headers = hs, body = b\<rparr>)"

subsection \<open>Configuration\<close>

text \<open>
  \<open>v ?? d\<close>, and the default of a destructured property: the given value unless it
  is absent.
\<close>

definition coalesce :: "'a option \<Rightarrow> 'a \<Rightarrow> 'a" where
  "coalesce v d = (case v of None \<Rightarrow> d | Some x \<Rightarrow> x)"

text \<open>
  \<open>cacheableResponse\<close> is \<open>false\<close> or an object with two optional properties
  (\<open>types.js\<close>; the property \<open>headers\<close> of the policy is written \<open>policy_headers\<close>, since
  a response has a field \<open>headers\<close> too). The object of required headers is the list
  of its entries.
\<close>

record CacheableResponseOptions =
  policy_headers :: "header_list option"
  statuses :: "int list option"

datatype cacheable = Disabled | Policy CacheableResponseOptions

record NetworkFriendlyOptions =
  networkTimeoutInSeconds :: "number option"
  cacheableResponse_opt :: "cacheable option"

record NetworkFirst =
  cacheName :: string
  networkTimeoutSeconds :: number
  cacheableResponse :: cacheable

definition NetworkFirst_new :: "string \<Rightarrow> NetworkFriendlyOptions \<Rightarrow> NetworkFirst" where
  "NetworkFirst_new name options =
     \<lparr>cacheName = name,
      networkTimeoutSeconds = coalesce (networkTimeoutInSeconds options) (Num 10),
      cacheableResponse = coalesce (cacheableResponse_opt options) Disabled\<rparr>"

subsection \<open>The world around one request\<close>

text \<open>
  What the strategy cannot decide is given by the environment: when and how
  \<open>fetch(request)\<close> settles, when a timer with a given delay fires, the clock, and the
  cache storage. What the strategy does to the world is recorded: the requests it
  fetched, the timers it started, and the \<open>cache.put\<close> calls it issued. The constant
  \<open>CACHE_TIMESTAMP_HEADER\<close> of \<open>BaseStrategy.js\<close> is a parameter.
\<close>

type_synonym cache = "request \<rightharpoonup> response"

record env =
  fetch :: "request \<Rightarrow> response promise"
  setTimeout_fires :: "number \<Rightarrow> nat"
  Date_now :: int
  caches_open :: "string \<Rightarrow> error + cache"
  CACHE_TIMESTAMP_HEADER :: string

record effects =
  fetched :: "request list"
  timers :: "number list"
  put :: "(request \<times> response) list"

definition no_effects :: effects where
  "no_effects = \<lparr>fetched = [], timers = [], put = []\<rparr>"

text \<open>
  Modelled from the spec: \<open>openCache\<close> of \<open>BaseStrategy.js\<close> is not among the sources.
  It opens the cache named \<open>cacheName\<close>, which yields a handle or fails; \<open>match\<close> on the
  handle returns the response stored for the request, or none.
\<close>

definition openCache :: "NetworkFirst \<Rightarrow> env \<Rightarrow> error + cache" where
  "openCache self env = caches_open env (cacheName self)"

subsection \<open>The methods of \<open>NetworkFirst\<close>\<close>

definition fetchWithTimeout ::
  "NetworkFirst \<Rightarrow> env \<Rightarrow> request \<Rightarrow> effects \<Rightarrow> response promise \<times> effects" where
  "fetchWithTimeout self env request fx =
     (let timeoutSeconds = networkTimeoutSeconds self
      in if timeoutSeconds \<noteq> Infinity
         then (let delay = number_times timeoutSeconds 1000;
                   timeoutPromise =
                     Some (setTimeout_fires env delay,
                           Inl (Error (''Network timed out after '' @
                                       number_toString timeoutSeconds @ '' seconds'')))
               in (race (fetch env request) timeoutPromise,
                   fx\<lparr>fetched := fetched fx @ [request], timers := timers fx @ [delay]\<rparr>))
         else (fetch env request, fx\<lparr>fetched := fetched fx @ [request]\<rparr>))"

definition validateResponse :: "NetworkFirst \<Rightarrow> response \<Rightarrow> bool" where
  "validateResponse self response =
     (case cacheableResponse self of
        Disabled \<Rightarrow> True
      | Policy p \<Rightarrow>
          (let hs = coalesce (policy_headers p) [];
               sts = coalesce (statuses p) [];
               isStatusValid =
                 (if length sts > 0 then status response \<in> set sts else True);
               isHeaderValid =
                 (if length hs > 0
                  then list_all (\<lambda>(key, v). Headers_get (headers response) key = Some v) hs
                  else True)
           in isStatusValid \<and> isHeaderValid))"

definition addTimestampHeader :: "env \<Rightarrow> response \<Rightarrow> error + response" where
  "addTimestampHeader env response =
     (let hs = Headers_append (headers response) (CACHE_TIMESTAMP_HEADER env)
                 (number_toString (Num (Date_now env)))
      in new_Response (body response) (status response) (statusText response) hs)"

text \<open>
  \<open>putInCache\<close> awaits \<open>openCache\<close>, builds the annotated response and calls
  \<open>cache.put\<close> without awaiting it: the call is recorded, and whether the write
  succeeds later has no part in what \<open>putInCache\<close> returns.
\<close>

definition putInCache ::
  "NetworkFirst \<Rightarrow> env \<Rightarrow> request \<Rightarrow> response \<Rightarrow> effects \<Rightarrow> (error + unit) \<times> effects" where
  "putInCache self env request response fx =
     (case openCache self env of
        Inl err \<Rightarrow> (Inl err, fx)
      | Inr cache \<Rightarrow>
          (case addTimestampHeader env response of
             Inl err \<Rightarrow> (Inl err, fx)
           | Inr timestampedResponse \<Rightarrow>
               (Inr (), fx\<lparr>put := put fx @ [(request, timestampedResponse)]\<rparr>)))"

text \<open>
  \<open>handleRequest\<close> is a \<open>try\<close> block and its \<open>catch\<close> clause. The outcome is \<open>None\<close> when
  the promise that \<open>handleRequest\<close> returns never settles, \<open>Some (Inl e)\<close> when it
  rejects with \<open>e\<close>, and \<open>Some (Inr r)\<close> when it resolves to \<open>r\<close>.
\<close>

definition try_block ::
  "NetworkFirst \<Rightarrow> env \<Rightarrow> request \<Rightarrow> (error + response) option \<times> effects" where
  "try_block self env request =
     (case fetchWithTimeout self env request no_effects of
        (None, fx) \<Rightarrow> (None, fx)
      | (Some (t, Inl err), fx) \<Rightarrow> (Some (Inl err), fx)
      | (Some (t, Inr res), fx) \<Rightarrow>
          (if validateResponse self res
           then (case putInCache self env request res fx of
                   (Inl err, fx1) \<Rightarrow> (Some (Inl err), fx1)
                 | (Inr u, fx1) \<Rightarrow> (Some (Inr res), fx1))
           else (Some (Inr res), fx)))"

definition catch_block ::
  "NetworkFirst \<Rightarrow> env \<Rightarrow> request \<Rightarrow> error + response" where
  "catch_block self env request =
     (case openCache self env of
        Inl err \<Rightarrow> Inl err
      | Inr cache \<Rightarrow>
          (case cache request of
             Some response \<Rightarrow> Inr response
           | None \<Rightarrow> Inl (Error ''No response received from fetch: Timeout'')))"

definition handleRequest ::
  "NetworkFirst \<Rightarrow> env \<Rightarrow> request \<Rightarrow> (error + response) option \<times> effects" where
  "handleRequest self env request =
     (case try_block self env request of
        (Some (Inl err), fx) \<Rightarrow> (Some (catch_block self env request), fx)
      | (Some (Inr res), fx) \<Rightarrow> (Some (Inr res), fx)
      | (None, fx) \<Rightarrow> (None, fx))"

subsection \<open>Example values\<close>

text \<open>
  A strategy built without options, one with the policy \<open>{statuses: [200]}\<close>, one
  with an infinite timeout and one that requires a header; a request; a response of status 200, one of status 500,
  an opaque response, and a response cached earlier with the cache that holds it; and
  an environment, given by how the fetch settles and what the cache holds, whose
  timers fire exactly at their delay (in milliseconds).
\<close>

definition default_strategy :: NetworkFirst where
  "default_strategy =
     NetworkFirst_new ''pages''
       \<lparr>networkTimeoutInSeconds = None, cacheableResponse_opt = None\<rparr>"

definition only_200_strategy :: NetworkFirst where
  "only_200_strategy =
     NetworkFirst_new ''pages''
       \<lparr>networkTimeoutInSeconds = None,
        cacheableResponse_opt =
          Some (Policy \<lparr>policy_headers = None, statuses = Some [200]\<rparr>)\<rparr>"

definition patient_strategy :: NetworkFirst where
  "patient_strategy =
     NetworkFirst_new ''pages''
       \<lparr>networkTimeoutInSeconds = Some Infinity, cacheableResponse_opt = None\<rparr>"

definition page_request :: request where
  "page_request = \<lparr>url = ''https://example.org/page'', http_method = ''GET''\<rparr>"

definition response_200 :: response where
  "response_200 =
     \<lparr>status = 200, statusText = ''OK'', headers = [(''Content-Type'', ''text/html'')],
      body = Some ''<p>fresh</p>''\<rparr>"

definition response_500 :: response where
  "response_500 =
     \<lparr>status = 500, statusText = ''Internal Server Error'', headers = [],
      body = Some ''oops''\<rparr>"

definition opaque_response :: response where
  "opaque_response = \<lparr>status = 0, statusText = [], headers = [], body = None\<rparr>"

definition cached_response :: response where
  "cached_response =
     \<lparr>status = 200, statusText = ''OK'',
      headers = [(''sw-cache-timestamp'', ''1700000000000'')],
      body = Some ''<p>stale</p>''\<rparr>"

definition html_only_strategy :: NetworkFirst where
  "html_only_strategy =
     NetworkFirst_new ''pages''
       \<lparr>networkTimeoutInSeconds = Some (Num 3),
        cacheableResponse_opt =
          Some (Policy \<lparr>policy_headers = Some [(''content-type'', ''text/html'')],
                        statuses = None\<rparr>)\<rparr>"

definition cache_with_page :: cache where
  "cache_with_page = [page_request \<mapsto> cached_response]"

definition ideal_timer :: "number \<Rightarrow> nat" where
  "ideal_timer delay = (case delay of Num ms \<Rightarrow> nat ms | _ \<Rightarrow> 0)"

definition example_env :: "response promise \<Rightarrow> cache \<Rightarrow> env" where
  "example_env p c =
     \<lparr>fetch = (\<lambda>r. p), setTimeout_fires = ideal_timer, Date_now = 1700000000123,
      caches_open = (\<lambda>name. Inr c), CACHE_TIMESTAMP_HEADER = ''sw-cache-timestamp''\<rparr>"

section \<open>Properties of the queue store\<close>

subsection \<open>Insertion in key order and the reachable states\<close>

lemma insort_key_above:
  "list_all (\<lambda>r. f r < f x) xs \<Longrightarrow> insort_key f x xs = xs @ [x]"
  by (induction xs) auto

lemma insort_key_below:
  "list_all (\<lambda>r. f x < f r) xs \<Longrightarrow> insort_key f x xs = x # xs"
  by (cases xs) auto

lemma filter_other_ids:
  "list_all (\<lambda>r. stored_id r \<noteq> k) xs \<Longrightarrow> filter (\<lambda>r. stored_id r \<noteq> k) xs = xs"
  by (induction xs) auto

lemma strict_sorted_insort_key:
  fixes f :: "'a \<Rightarrow> int"
  shows "sorted_wrt (<) (map f xs) \<Longrightarrow> f x \<notin> f ` set xs \<Longrightarrow>
   sorted_wrt (<) (map f (insort_key f x xs))"
  by (induction xs) (auto simp: set_insort_key)

lemma addEntry_auto:
  assumes "list_all (\<lambda>r. stored_id r \<le> lastId db) (rows db)" and "entry_id e = None"
  shows "addEntry e db =
     Inr (db\<lparr>rows := rows db @ [\<lparr>stored_id = lastId db + 1, stored_queueName = queueName e,
                                  stored_payload = payload e\<rparr>],
             lastId := lastId db + 1\<rparr>)"
proof -
  let ?row = "\<lparr>stored_id = lastId db + 1, stored_queueName = queueName e,
                stored_payload = payload e\<rparr>"
  have lt: "list_all (\<lambda>r. stored_id r < stored_id ?row) (rows db)"
    using assms(1) by (auto simp: list_all_iff)
  then have notin: "lastId db + 1 \<notin> set (map stored_id (rows db))"
    by (auto simp: list_all_iff)
  show ?thesis
    using notin insort_key_above [OF lt] assms(2)
    by (simp add: addEntry_def Let_def)
qed

lemma wf_empty_db: "wf_db empty_db"
  by (simp add: wf_db_def empty_db_def)

lemma wf_addEntry:
  assumes "wf_db db" and "addEntry e db = Inr db1"
  shows "wf_db db1"
proof -
  define k where "k = (case entry_id e of None \<Rightarrow> lastId db + 1 | Some i \<Rightarrow> i)"
  define row where "row = \<lparr>stored_id = k, stored_queueName = queueName e,
                 stored_payload = payload e\<rparr>"
  have fresh: "k \<notin> stored_id ` set (rows db)"
    and db1: "db1 = db\<lparr>rows := insort_key stored_id row (rows db), lastId := max (lastId db) k\<rparr>"
    using assms(2) by (auto simp: addEntry_def Let_def k_def row_def split: if_splits)
  have k: "stored_id row = k" by (simp add: row_def)
  have "sorted_wrt (<) (map stored_id (insort_key stored_id row (rows db)))"
    using assms(1) fresh k by (intro strict_sorted_insort_key) (simp_all add: wf_db_def)
  moreover have "list_all (\<lambda>r. stored_id r \<le> max (lastId db) k)
      (insort_key stored_id row (rows db))"
    using assms(1) k by (auto simp: wf_db_def list_all_iff set_insort_key)
  ultimately show ?thesis by (simp add: db1 wf_db_def)
qed

lemma wf_deleteEntry: "wf_db db \<Longrightarrow> wf_db (deleteEntry k db)"
  by (auto simp: wf_db_def deleteEntry_def db_deleteEntry_def list_all_iff
      sorted_wrt_map intro: sorted_wrt_filter)

lemma wf_removeEntry: "wf_db db \<Longrightarrow> wf_db (snd (removeEntry e db))"
  by (cases e) (simp_all add: removeEntry_def wf_deleteEntry)

lemma wf_do_call:
  assumes "wf_db db" and "do_call q c db = Inr (r, db1)"
  shows "wf_db db1"
proof (cases c)
  case (PushEntry e)
  then show ?thesis
    using assms
    by (cases "snd (pushEntry q e db)") (auto simp: pushEntry_def Let_def dest: wf_addEntry)
next
  case (UnshiftEntry e)
  then show ?thesis
    using assms
    by (cases "snd (unshiftEntry q e db)") (auto simp: unshiftEntry_def Let_def dest: wf_addEntry)
next
  case PopEntry
  then show ?thesis
    using assms wf_removeEntry [of db "getLastEntryByQueueName q db"]
    by (auto simp: popEntry_def apfst_def map_prod_def split: prod.splits)
next
  case ShiftEntry
  then show ?thesis
    using assms wf_removeEntry [of db "getFirstEntryByQueueName q db"]
    by (auto simp: shiftEntry_def apfst_def map_prod_def split: prod.splits)
next
  case (DeleteEntry k)
  then show ?thesis using assms by (auto simp: wf_deleteEntry)
qed (use assms in auto)

lemma wf_do_calls:
  "wf_db db \<Longrightarrow> do_calls q cs db = Inr (rs, db1) \<Longrightarrow> wf_db db1"
proof (induction cs arbitrary: db rs)
  case Nil
  then show ?case by simp
next
  case (Cons c cs)
  then show ?case
    by (auto split: sum.splits prod.splits dest: wf_do_call)
qed

subsection \<open>Queue laws\<close>

lemma do_call_PushEntry_auto:
  assumes "wf_db db"
  shows "do_call q (PushEntry e) db =
     Inr (Void, db\<lparr>rows := rows db @ [\<lparr>stored_id = lastId db + 1, stored_queueName = q,
                                          stored_payload = payload e\<rparr>],
                     lastId := lastId db + 1\<rparr>)"
proof -
  have le: "list_all (\<lambda>r. stored_id r \<le> lastId db) (rows db)"
    using assms by (simp add: wf_db_def)
  show ?thesis
    using addEntry_auto [OF le, of "e\<lparr>entry_id := None, queueName := q\<rparr>"]
    by (simp add: pushEntry_def)
qed

text \<open>
  Claim C5 (queue FIFO law). In a well-formed database in which the queue \<open>q\<close> has no
  entry, \<open>pushEntry(a); pushEntry(b)\<close> followed by three calls of \<open>shiftEntry\<close> returns
  the stored copy of \<open>a\<close>, then that of \<open>b\<close>, then nothing. The stored copies carry the
  payloads of \<open>a\<close> and \<open>b\<close>, the queue name of the facade and the next two ids of the key
  generator, whatever ids and queue names \<open>a\<close> and \<open>b\<close> came with. Entries of other
  queues are left as they were.
\<close>

theorem queue_fifo_law:
  assumes wf: "wf_db db" and emp: "getAll q db = []"
  shows "do_calls q [PushEntry a, PushEntry b, ShiftEntry, ShiftEntry, ShiftEntry] db =
     Inr ([Void, Void,
           Removed (Some \<lparr>stored_id = lastId db + 1, stored_queueName = q,
                           stored_payload = payload a\<rparr>),
           Removed (Some \<lparr>stored_id = lastId db + 2, stored_queueName = q,
                           stored_payload = payload b\<rparr>),
           Removed None],
          db\<lparr>lastId := lastId db + 2\<rparr>)"
proof -
  let ?ra = "\<lparr>stored_id = lastId db + 1, stored_queueName = q, stored_payload = payload a\<rparr>"
  let ?rb = "\<lparr>stored_id = lastId db + 2, stored_queueName = q, stored_payload = payload b\<rparr>"
  let ?db1 = "db\<lparr>rows := rows db @ [?ra], lastId := lastId db + 1\<rparr>"
  let ?db2 = "db\<lparr>rows := rows db @ [?ra, ?rb], lastId := lastId db + 2\<rparr>"
  let ?db3 = "db\<lparr>rows := rows db @ [?rb], lastId := lastId db + 2\<rparr>"
  let ?db4 = "db\<lparr>lastId := lastId db + 2\<rparr>"
  have le: "list_all (\<lambda>r. stored_id r \<le> lastId db) (rows db)"
    using wf by (simp add: wf_db_def)
  have p1: "do_call q (PushEntry a) db = Inr (Void, ?db1)"
    by (rule do_call_PushEntry_auto [OF wf])
  have wf1: "wf_db ?db1"
    by (rule wf_do_call [OF wf p1])
  have p2: "do_call q (PushEntry b) ?db1 = Inr (Void, ?db2)"
    using do_call_PushEntry_auto [OF wf1, of q b] by simp
  have noq: "filter (\<lambda>r. stored_queueName r = q) (rows db) = []"
    using emp by (simp add: getAll_def getAllEntriesByQueueName_def)
  have na: "filter (\<lambda>r. stored_id r \<noteq> lastId db + 1) (rows db) = rows db"
    by (rule filter_other_ids) (use le in \<open>auto simp: list_all_iff\<close>)
  have nb: "filter (\<lambda>r. stored_id r \<noteq> lastId db + 2) (rows db) = rows db"
    by (rule filter_other_ids) (use le in \<open>auto simp: list_all_iff\<close>)
  have s1: "do_call q ShiftEntry ?db2 = Inr (Removed (Some ?ra), ?db3)"
    using noq na
    by (simp add: shiftEntry_def getFirstEntryByQueueName_def getAllEntriesByQueueName_def
        removeEntry_def deleteEntry_def db_deleteEntry_def)
  have s2: "do_call q ShiftEntry ?db3 = Inr (Removed (Some ?rb), ?db4)"
    using noq nb
    by (simp add: shiftEntry_def getFirstEntryByQueueName_def getAllEntriesByQueueName_def
        removeEntry_def deleteEntry_def db_deleteEntry_def)
  have s3: "do_call q ShiftEntry ?db4 = Inr (Removed None, ?db4)"
    using noq
    by (simp add: shiftEntry_def getFirstEntryByQueueName_def getAllEntriesByQueueName_def
        removeEntry_def)
  show ?thesis
    by (simp add: p1 p2 s1 s2 s3 del: do_call.simps)
qed

text \<open>
  The law at a fresh store, for an entry that came with an id and a foreign queue name
  and one that came with neither.
\<close>

theorem queue_fifo_law_witness:
  "wf_db (empty_db :: string BackgroundSyncQueueDb) \<and> getAll ''sync'' (empty_db :: string BackgroundSyncQueueDb) = [] \<and>
   do_calls ''sync'' [PushEntry entry_a, PushEntry entry_b, ShiftEntry, ShiftEntry, ShiftEntry] empty_db =
     Inr ([Void, Void,
           Removed (Some \<lparr>stored_id = 1, stored_queueName = ''sync'', stored_payload = ''POST /a''\<rparr>),
           Removed (Some \<lparr>stored_id = 2, stored_queueName = ''sync'', stored_payload = ''POST /b''\<rparr>),
           Removed None],
          \<lparr>rows = [], lastId = 2\<rparr>)"
proof -
  have w: "wf_db (empty_db :: string BackgroundSyncQueueDb)"
    by (simp add: wf_db_def empty_db_def)
  have e: "getAll ''sync'' (empty_db :: string BackgroundSyncQueueDb) = []"
    by (simp add: getAll_def getAllEntriesByQueueName_def empty_db_def)
  show ?thesis
    using w e queue_fifo_law [OF w e, of entry_a entry_b]
    by (simp add: empty_db_def entry_a_def entry_b_def del: do_calls.simps)
qed

text \<open>
  Claim C8 (idempotent empty pop). When the queue \<open>q\<close> has no entry, \<open>popEntry\<close> and
  \<open>shiftEntry\<close> return nothing and leave the database as it is, and so does every
  sequence of such calls, of any length: no call of the sequence is rejected, every
  reply is "none", and the final database is the initial one. Entries of other queues
  may be present.
\<close>

theorem empty_removal:
  assumes "getAll q db = []"
  shows "popEntry q db = (None, db) \<and> shiftEntry q db = (None, db) \<and>
    (\<forall>cs. set cs \<subseteq> {PopEntry, ShiftEntry} \<longrightarrow>
       do_calls q cs db = Inr (replicate (length cs) (Removed None), db))"
proof -
  have emp: "getAllEntriesByQueueName q db = []"
    using assms by (simp add: getAll_def)
  have pop: "popEntry q db = (None, db)"
    by (simp add: popEntry_def getLastEntryByQueueName_def removeEntry_def emp)
  have shift: "shiftEntry q db = (None, db)"
    by (simp add: shiftEntry_def getFirstEntryByQueueName_def removeEntry_def emp)
  have "do_calls q cs db = Inr (replicate (length cs) (Removed None), db)"
    if "set cs \<subseteq> {PopEntry, ShiftEntry}" for cs :: "'a call list"
    using that
  proof (induction cs)
    case Nil
    then show ?case by simp
  next
    case (Cons c cs)
    then have "c = PopEntry \<or> c = ShiftEntry" by simp
    then have "do_call q c db = Inr (Removed None, db)"
      by (auto simp: pop shift)
    with Cons show ?case by simp
  qed
  with pop shift show ?thesis by blast
qed

text \<open>
  Claim C9 (the argument object is written to). After \<open>pushEntry\<close> the object that
  was passed in has no \<open>id\<close> and carries the queue name of the facade; after
  \<open>unshiftEntry\<close> it carries that queue name and the id the method chose, or none.
  This holds for every state of the database, also one in which \<open>addEntry\<close> then
  rejects. An object that came with an id, or with another queue name, is therefore
  not the object it was before the call.
\<close>

theorem facade_mutates_argument:
  "fst (pushEntry q e db) = e\<lparr>entry_id := None, queueName := q\<rparr> \<and>
   fst (unshiftEntry q e db) =
     e\<lparr>entry_id := (case getFirstEntryId db of
                       None \<Rightarrow> None
                     | Some f \<Rightarrow> if f = 0 then None else Some (f - 1)),
       queueName := q\<rparr> \<and>
   (entry_id e \<noteq> None \<longrightarrow> fst (pushEntry q e db) \<noteq> e) \<and>
   (queueName e \<noteq> q \<longrightarrow> fst (pushEntry q e db) \<noteq> e \<and> fst (unshiftEntry q e db) \<noteq> e)"
proof -
  have push: "fst (pushEntry q e db) = e\<lparr>entry_id := None, queueName := q\<rparr>"
    by (simp add: pushEntry_def Let_def)
  have unshift: "fst (unshiftEntry q e db) =
     e\<lparr>entry_id := (case getFirstEntryId db of
                       None \<Rightarrow> None
                     | Some f \<Rightarrow> if f = 0 then None else Some (f - 1)),
       queueName := q\<rparr>"
    by (simp add: unshiftEntry_def Let_def truthy_def split: option.splits)
  have "fst (pushEntry q e db) \<noteq> e" if "entry_id e \<noteq> None"
  proof
    assume "fst (pushEntry q e db) = e"
    then have "entry_id (fst (pushEntry q e db)) = entry_id e" by simp
    with that show False by (simp add: push)
  qed
  moreover have "fst (pushEntry q e db) \<noteq> e \<and> fst (unshiftEntry q e db) \<noteq> e"
    if "queueName e \<noteq> q"
  proof -
    have "queueName (fst (pushEntry q e db)) = q" "queueName (fst (unshiftEntry q e db)) = q"
      by (simp_all add: push unshift)
    with that show ?thesis by auto
  qed
  ultimately show ?thesis using push unshift by blast
qed

lemma db_zero_reached:
  "do_calls qname [PushEntry entry_a, UnshiftEntry entry_b] empty_db = Inr ([Void, Void], db_zero qname)"
  by (simp add: pushEntry_def unshiftEntry_def addEntry_def getFirstEntryId_def truthy_def
      empty_db_def db_zero_def entry_a_def entry_b_def Let_def)

text \<open>
  Claim C1 (head insertion below the minimum) fails when the minimum id is 0. On a
  fresh store \<open>pushEntry\<close> issues id 1 and \<open>unshiftEntry\<close> then stores its entry under
  id 0. The next \<open>unshiftEntry\<close> reads the minimum 0, which the test \<open>if (firstId)\<close>
  takes for "no entry": the id is deleted, the key generator issues 2, and the entry
  is stored behind all others instead of under id -1.
\<close>

theorem unshiftEntry_minimum_zero:
  "do_calls ''sync'' [PushEntry entry_a, UnshiftEntry entry_b] empty_db =
     Inr ([Void, Void], db_zero ''sync'') \<and>
   getFirstEntryId (db_zero ''sync'') = Some 0 \<and>
   unshiftEntry ''sync'' entry_c (db_zero ''sync'') =
     (entry_c\<lparr>entry_id := None, queueName := ''sync''\<rparr>,
      Inr \<lparr>rows = [\<lparr>stored_id = 0, stored_queueName = ''sync'', stored_payload = ''POST /b''\<rparr>,
                   \<lparr>stored_id = 1, stored_queueName = ''sync'', stored_payload = ''POST /a''\<rparr>,
                   \<lparr>stored_id = 2, stored_queueName = ''sync'', stored_payload = ''POST /c''\<rparr>],
           lastId = 2\<rparr>)"
  by (simp add: pushEntry_def unshiftEntry_def addEntry_def getFirstEntryId_def truthy_def
      empty_db_def db_zero_def entry_a_def entry_b_def entry_c_def Let_def)

text \<open>
  Claim C6 (head insertion ordering) fails for a queue that is empty while another
  queue holds the id 0. After \<open>pushEntry(a); unshiftEntry(b)\<close> on the queue
  \<open>other\<close>, the queue \<open>sync\<close> is empty and the least id of the store is 0. Then
  \<open>pushEntry(a); unshiftEntry(b)\<close> on \<open>sync\<close> stores \<open>a\<close> under id 2 and \<open>b\<close>
  under id 3, and \<open>getAll\<close> returns \<open>a\<close> before \<open>b\<close>.
\<close>

theorem head_insertion_minimum_zero:
  "do_calls ''other'' [PushEntry entry_a, UnshiftEntry entry_b] empty_db =
     Inr ([Void, Void], db_zero ''other'') \<and>
   getAll ''sync'' (db_zero ''other'') = [] \<and>
   do_calls ''sync'' [PushEntry entry_a, UnshiftEntry entry_b, GetAll] (db_zero ''other'') =
     Inr ([Void, Void,
           Entries [\<lparr>stored_id = 2, stored_queueName = ''sync'', stored_payload = ''POST /a''\<rparr>,
                    \<lparr>stored_id = 3, stored_queueName = ''sync'', stored_payload = ''POST /b''\<rparr>]],
          \<lparr>rows = [\<lparr>stored_id = 0, stored_queueName = ''other'', stored_payload = ''POST /b''\<rparr>,
                   \<lparr>stored_id = 1, stored_queueName = ''other'', stored_payload = ''POST /a''\<rparr>,
                   \<lparr>stored_id = 2, stored_queueName = ''sync'', stored_payload = ''POST /a''\<rparr>,
                   \<lparr>stored_id = 3, stored_queueName = ''sync'', stored_payload = ''POST /b''\<rparr>],
           lastId = 3\<rparr>)"
  by (simp add: pushEntry_def unshiftEntry_def addEntry_def getFirstEntryId_def truthy_def
      getAll_def getAllEntriesByQueueName_def
      empty_db_def db_zero_def entry_a_def entry_b_def Let_def)

text \<open>
  Removals on the empty queue \<open>sync\<close> of a store that holds two entries of another
  queue.
\<close>

theorem empty_removal_witness:
  "getAll ''sync'' (db_zero ''other'') = [] \<and>
   popEntry ''sync'' (db_zero ''other'') = (None, db_zero ''other'') \<and>
   shiftEntry ''sync'' (db_zero ''other'') = (None, db_zero ''other'') \<and>
   do_calls ''sync'' [PopEntry, ShiftEntry, PopEntry] (db_zero ''other'') =
     Inr ([Removed None, Removed None, Removed None], db_zero ''other'')"
proof -
  have e: "getAll ''sync'' (db_zero ''other'') = []"
    by (simp add: getAll_def getAllEntriesByQueueName_def db_zero_def)
  have "set [PopEntry, ShiftEntry, PopEntry :: string call] \<subseteq> {PopEntry, ShiftEntry}"
    by simp
  with empty_removal [OF e] e show ?thesis
    by (metis length_Cons list.size(3) replicate_Suc replicate_0)
qed

text \<open>
  An entry that came with id 7 and the queue name \<open>other\<close>, after each of the two
  calls.
\<close>

theorem facade_mutates_argument_witness:
  "fst (pushEntry ''sync'' entry_a (db_zero ''sync'')) =
     \<lparr>entry_id = None, queueName = ''sync'', payload = ''POST /a''\<rparr> \<and>
   fst (unshiftEntry ''sync'' entry_a (db_zero ''sync'')) =
     \<lparr>entry_id = None, queueName = ''sync'', payload = ''POST /a''\<rparr> \<and>
   entry_id entry_a \<noteq> None \<and> queueName entry_a \<noteq> ''sync'' \<and>
   fst (pushEntry ''sync'' entry_a (db_zero ''sync'')) \<noteq> entry_a \<and>
   fst (unshiftEntry ''sync'' entry_a (db_zero ''sync'')) \<noteq> entry_a"
proof -
  have h: "entry_id entry_a \<noteq> None" "queueName entry_a \<noteq> ''sync''"
    by (simp_all add: entry_a_def)
  have z: "getFirstEntryId (db_zero ''sync'') = Some 0"
    by (simp add: getFirstEntryId_def db_zero_def)
  show ?thesis
    using h facade_mutates_argument [of "''sync''" entry_a "db_zero ''sync''"]
    by (simp add: z) (simp add: entry_a_def)
qed


subsection \<open>Head insertion below a least id other than 0\<close>

lemma getFirstEntryId_least:
  assumes "wf_db db" and "getFirstEntryId db = Some m"
  shows "list_all (\<lambda>r. m \<le> stored_id r) (rows db) \<and> m \<le> lastId db"
proof (cases "rows db")
  case Nil
  with assms(2) show ?thesis by (simp add: getFirstEntryId_def)
next
  case (Cons r rs)
  with assms(2) have m: "m = stored_id r" by (simp add: getFirstEntryId_def)
  from assms(1) Cons have "\<forall>x \<in> set rs. stored_id r < stored_id x" "stored_id r \<le> lastId db"
    by (auto simp: wf_db_def)
  with Cons m show ?thesis by (auto simp: list_all_iff)
qed

lemma unshiftEntry_nonzero_minimum:
  assumes "wf_db db" and "getFirstEntryId db = Some m" and "m \<noteq> 0"
  shows "unshiftEntry q e db =
      (e\<lparr>entry_id := Some (m - 1), queueName := q\<rparr>,
       Inr (db\<lparr>rows := \<lparr>stored_id = m - 1, stored_queueName = q,
                            stored_payload = payload e\<rparr> # rows db\<rparr>)) \<and>
    list_all (\<lambda>r. m - 1 < stored_id r) (rows db)"
proof -
  let ?row = "\<lparr>stored_id = m - 1, stored_queueName = q, stored_payload = payload e\<rparr>"
  have least: "list_all (\<lambda>r. m \<le> stored_id r) (rows db)" and le: "m \<le> lastId db"
    using getFirstEntryId_least [OF assms(1,2)] by simp_all
  have below: "list_all (\<lambda>r. stored_id ?row < stored_id r) (rows db)"
    using least by (auto simp: list_all_iff)
  then have fresh: "m - 1 \<notin> stored_id ` set (rows db)"
    by (auto simp: list_all_iff)
  have "addEntry (e\<lparr>entry_id := Some (m - 1), queueName := q\<rparr>) db =
      Inr (db\<lparr>rows := ?row # rows db\<rparr>)"
    using fresh insort_key_below [OF below] le
    by (simp add: addEntry_def Let_def max_def)
  then have "unshiftEntry q e db =
      (e\<lparr>entry_id := Some (m - 1), queueName := q\<rparr>, Inr (db\<lparr>rows := ?row # rows db\<rparr>))"
    using assms(2,3) by (simp add: unshiftEntry_def Let_def truthy_def)
  with below show ?thesis by simp
qed

text \<open>
  Head insertion where the least id is not 0: in a well-formed database whose least
  id is \<open>m\<close>, with \<open>m\<close> other than 0, \<open>unshiftEntry\<close> gives the entry the id \<open>m - 1\<close>,
  which lies below the id of every stored entry of every queue, and the entry is
  stored in front of them.
\<close>

theorem unshiftEntry_below_minimum:
  assumes "wf_db db" and "getFirstEntryId db = Some m" and "m \<noteq> 0"
  shows "unshiftEntry q e db =
      (e\<lparr>entry_id := Some (m - 1), queueName := q\<rparr>,
       Inr (db\<lparr>rows := \<lparr>stored_id = m - 1, stored_queueName = q,
                            stored_payload = payload e\<rparr> # rows db\<rparr>)) \<and>
    list_all (\<lambda>r. m - 1 < stored_id r) (rows db)"
  using assms by (rule unshiftEntry_nonzero_minimum)

text \<open>
  A store that holds the id 1 of the queue \<open>sync\<close>: an entry unshifted on the queue
  \<open>other\<close> receives the id 0.
\<close>

theorem unshiftEntry_below_minimum_witness:
  "wf_db (db_zero ''sync''\<lparr>rows := tl (rows (db_zero ''sync''))\<rparr>) \<and>
   getFirstEntryId (db_zero ''sync''\<lparr>rows := tl (rows (db_zero ''sync''))\<rparr>) = Some 1 \<and>
   unshiftEntry ''other'' entry_c (db_zero ''sync''\<lparr>rows := tl (rows (db_zero ''sync''))\<rparr>) =
     (\<lparr>entry_id = Some 0, queueName = ''other'', payload = ''POST /c''\<rparr>,
      Inr \<lparr>rows = [\<lparr>stored_id = 0, stored_queueName = ''other'', stored_payload = ''POST /c''\<rparr>,
                   \<lparr>stored_id = 1, stored_queueName = ''sync'', stored_payload = ''POST /a''\<rparr>],
           lastId = 1\<rparr>)"
proof -
  let ?db = "db_zero ''sync''\<lparr>rows := tl (rows (db_zero ''sync''))\<rparr>"
  have w: "wf_db ?db" by (simp add: wf_db_def db_zero_def)
  have f: "getFirstEntryId ?db = Some 1" by (simp add: getFirstEntryId_def db_zero_def)
  show ?thesis
    using w f unshiftEntry_below_minimum [OF w f, of "''other''" entry_c]
    by (simp add: db_zero_def entry_c_def)
qed

text \<open>
  Head insertion ordering where the least id is not 0: for a queue without entries in
  a well-formed database, \<open>pushEntry(a); unshiftEntry(b); getAll()\<close> returns the stored
  copy of \<open>b\<close> and then that of \<open>a\<close>, provided the least id that \<open>unshiftEntry\<close> finds
  (the least id of the store or, in an empty store, the id just issued to \<open>a\<close>) is
  not 0.
\<close>

theorem head_insertion_order:
  assumes wf: "wf_db db" and emp: "getAll q db = []"
    and nz: "(case getFirstEntryId db of None \<Rightarrow> lastId db + 1 | Some m \<Rightarrow> m) \<noteq> 0"
  shows "do_calls q [PushEntry a, UnshiftEntry b, GetAll] db =
     Inr ([Void, Void,
           Entries [\<lparr>stored_id = (case getFirstEntryId db of None \<Rightarrow> lastId db + 1 | Some m \<Rightarrow> m) - 1,
                      stored_queueName = q, stored_payload = payload b\<rparr>,
                    \<lparr>stored_id = lastId db + 1, stored_queueName = q,
                      stored_payload = payload a\<rparr>]],
          db\<lparr>rows := \<lparr>stored_id = (case getFirstEntryId db of None \<Rightarrow> lastId db + 1 | Some m \<Rightarrow> m) - 1,
                         stored_queueName = q, stored_payload = payload b\<rparr> #
                       rows db @
                       [\<lparr>stored_id = lastId db + 1, stored_queueName = q,
                          stored_payload = payload a\<rparr>],
              lastId := lastId db + 1\<rparr>)"
proof -
  let ?ra = "\<lparr>stored_id = lastId db + 1, stored_queueName = q, stored_payload = payload a\<rparr>"
  let ?m = "(case getFirstEntryId db of None \<Rightarrow> lastId db + 1 | Some m \<Rightarrow> m)"
  let ?rb = "\<lparr>stored_id = ?m - 1, stored_queueName = q, stored_payload = payload b\<rparr>"
  let ?db1 = "db\<lparr>rows := rows db @ [?ra], lastId := lastId db + 1\<rparr>"
  let ?db2 = "?db1\<lparr>rows := ?rb # rows ?db1\<rparr>"
  have p1: "do_call q (PushEntry a) db = Inr (Void, ?db1)"
    by (rule do_call_PushEntry_auto [OF wf])
  have wf1: "wf_db ?db1"
    by (rule wf_do_call [OF wf p1])
  have first: "getFirstEntryId ?db1 = Some ?m"
    by (cases "rows db") (simp_all add: getFirstEntryId_def)
  have u: "unshiftEntry q b ?db1 =
      (b\<lparr>entry_id := Some (?m - 1), queueName := q\<rparr>, Inr ?db2)"
    using unshiftEntry_nonzero_minimum [OF wf1 first nz, of q b] by simp
  then have p2: "do_call q (UnshiftEntry b) ?db1 = Inr (Void, ?db2)"
    by simp
  have noq: "filter (\<lambda>r. stored_queueName r = q) (rows db) = []"
    using emp by (simp add: getAll_def getAllEntriesByQueueName_def)
  have g: "do_call q GetAll ?db2 = Inr (Entries [?rb, ?ra], ?db2)"
    using noq by (simp add: getAll_def getAllEntriesByQueueName_def)
  show ?thesis
    using p1 p2 g by (simp del: do_call.simps)
qed

text \<open>
  The ordering on a fresh store, where \<open>a\<close> receives the id 1 and \<open>b\<close> the id 0.
\<close>

theorem head_insertion_order_witness:
  "wf_db (empty_db :: string BackgroundSyncQueueDb) \<and>
   getAll ''sync'' (empty_db :: string BackgroundSyncQueueDb) = [] \<and>
   (case getFirstEntryId (empty_db :: string BackgroundSyncQueueDb) of
      None \<Rightarrow> lastId (empty_db :: string BackgroundSyncQueueDb) + 1
    | Some m \<Rightarrow> m) \<noteq> 0 \<and>
   do_calls ''sync'' [PushEntry entry_a, UnshiftEntry entry_b, GetAll] empty_db =
     Inr ([Void, Void,
           Entries [\<lparr>stored_id = 0, stored_queueName = ''sync'', stored_payload = ''POST /b''\<rparr>,
                    \<lparr>stored_id = 1, stored_queueName = ''sync'', stored_payload = ''POST /a''\<rparr>]],
          \<lparr>rows = [\<lparr>stored_id = 0, stored_queueName = ''sync'', stored_payload = ''POST /b''\<rparr>,
                   \<lparr>stored_id = 1, stored_queueName = ''sync'', stored_payload = ''POST /a''\<rparr>],
           lastId = 1\<rparr>)"
proof -
  have w: "wf_db (empty_db :: string BackgroundSyncQueueDb)"
    by (simp add: wf_db_def empty_db_def)
  have e: "getAll ''sync'' (empty_db :: string BackgroundSyncQueueDb) = []"
    by (simp add: getAll_def getAllEntriesByQueueName_def empty_db_def)
  have f: "(case getFirstEntryId (empty_db :: string BackgroundSyncQueueDb) of
      None \<Rightarrow> lastId (empty_db :: string BackgroundSyncQueueDb) + 1
    | Some m \<Rightarrow> m) \<noteq> 0"
    by (simp add: getFirstEntryId_def empty_db_def)
  show ?thesis
    using w e f head_insertion_order [OF w e f, of entry_a entry_b]
    by (simp add: empty_db_def entry_a_def entry_b_def getFirstEntryId_def
        del: do_calls.simps)
qed

section \<open>Properties of the network-first strategy\<close>

subsection \<open>The methods, case by case\<close>


lemma fetchWithTimeout_finite:
  "networkTimeoutSeconds self = Num n \<Longrightarrow>
   fetchWithTimeout self env request fx =
     (race (fetch env request)
        (Some (setTimeout_fires env (Num (n * 1000)),
               Inl (Error (''Network timed out after '' @ number_toString (Num n) @ '' seconds'')))),
      fx\<lparr>fetched := fetched fx @ [request], timers := timers fx @ [Num (n * 1000)]\<rparr>)"
  by (simp add: fetchWithTimeout_def Let_def)

lemma fetchWithTimeout_Infinity:
  "networkTimeoutSeconds self = Infinity \<Longrightarrow>
   fetchWithTimeout self env request fx =
     (fetch env request, fx\<lparr>fetched := fetched fx @ [request]\<rparr>)"
  by (simp add: fetchWithTimeout_def Let_def)

lemma fetchWithTimeout_effects:
  "fetched (snd (fetchWithTimeout self env request fx)) = fetched fx @ [request] \<and>
   put (snd (fetchWithTimeout self env request fx)) = put fx"
  by (simp add: fetchWithTimeout_def Let_def)

lemma race_timer_first:
  "p = None \<or> (\<exists>t r. p = Some (t, r) \<and> tt < t) \<Longrightarrow> race p (Some (tt, e)) = Some (tt, e)"
  by (cases p) auto

lemma try_block_network_failure:
  assumes "fst (fetchWithTimeout self env request no_effects) = Some (t, Inl err)"
  shows "try_block self env request =
     (Some (Inl err), snd (fetchWithTimeout self env request no_effects))"
  using assms by (cases "fetchWithTimeout self env request no_effects") (simp add: try_block_def)

lemma try_block_pending:
  assumes "fst (fetchWithTimeout self env request no_effects) = None"
  shows "try_block self env request =
     (None, snd (fetchWithTimeout self env request no_effects))"
  using assms by (cases "fetchWithTimeout self env request no_effects") (simp add: try_block_def)

lemma handleRequest_catch:
  assumes "fst (try_block self env request) = Some (Inl err)"
  shows "handleRequest self env request =
     (Some (catch_block self env request), snd (try_block self env request))"
  using assms by (cases "try_block self env request") (simp add: handleRequest_def)

lemma catch_block_lookup:
  assumes "openCache self env = Inr cache"
  shows "catch_block self env request =
     (case cache request of
        Some response \<Rightarrow> Inr response
      | None \<Rightarrow> Inl (Error ''No response received from fetch: Timeout''))"
  using assms by (simp add: catch_block_def)

subsection \<open>Validation, fallback and the error message\<close>






text \<open>
  Claim C3 (fallback to the cache), as amended. When the fetch is rejected or the
  timer wins the race, and the cache opens, \<open>handleRequest\<close> resolves to the response
  the cache holds for the request, unchanged, or, when it holds none, rejects with the
  plain \<open>Error\<close> whose message is \<open>No response received from fetch: Timeout\<close>. The
  request is fetched once and nothing is written to the cache.
\<close>

theorem cache_fallback:
  assumes "fst (fetchWithTimeout self env request no_effects) = Some (t, Inl err)"
    and "openCache self env = Inr cache"
  shows "fst (handleRequest self env request) =
      (case cache request of
         Some response \<Rightarrow> Some (Inr response)
       | None \<Rightarrow> Some (Inl (Error ''No response received from fetch: Timeout''))) \<and>
    fetched (snd (handleRequest self env request)) = [request] \<and>
    put (snd (handleRequest self env request)) = []"
proof -
  let ?fx = "snd (fetchWithTimeout self env request no_effects)"
  have tb: "try_block self env request = (Some (Inl err), ?fx)"
    by (rule try_block_network_failure [OF assms(1)])
  then have hr: "handleRequest self env request = (Some (catch_block self env request), ?fx)"
    using handleRequest_catch [of self env request err] by simp
  have fx: "fetched ?fx = [request]" "put ?fx = []"
    using fetchWithTimeout_effects [of self env request no_effects]
    by (simp_all add: no_effects_def)
  show ?thesis
    by (simp add: hr fx catch_block_lookup [OF assms(2)] split: option.split)
qed

lemma try_block_failure_causes:
  "fst (try_block self env request) = Some (Inl err) \<longleftrightarrow>
     (\<exists>t. fst (fetchWithTimeout self env request no_effects) = Some (t, Inl err)) \<or>
     (\<exists>t res. fst (fetchWithTimeout self env request no_effects) = Some (t, Inr res) \<and>
        validateResponse self res \<and>
        fst (putInCache self env request res
              (snd (fetchWithTimeout self env request no_effects))) = Inl err)"
  by (cases "fetchWithTimeout self env request no_effects")
     (auto simp: try_block_def split: option.splits sum.splits prod.splits if_splits)


subsection \<open>The timeout, and evaluations\<close>

lemmas example_defs =
  default_strategy_def only_200_strategy_def patient_strategy_def html_only_strategy_def
  NetworkFirst_new_def coalesce_def page_request_def response_200_def response_500_def
  opaque_response_def cached_response_def ideal_timer_def example_env_def cache_with_page_def
  no_effects_def

lemmas method_defs =
  fetchWithTimeout_def validateResponse_def addTimestampHeader_def putInCache_def
  try_block_def catch_block_def handleRequest_def openCache_def new_Response_def
  Headers_append_def Headers_get_def ascii_lower_def digits.simps Let_def

text \<open>
  Claim C7 (network timeout). The timeout is the configured one, and 10 seconds when
  none is configured. With a finite timeout of \<open>n\<close> seconds one timer of \<open>n * 1000\<close>
  milliseconds is started and raced against the fetch; when the fetch never settles or
  settles after the timer has fired, the race is rejected with the error
  \<open>Network timed out after n seconds\<close> and \<open>handleRequest\<close> goes on in its \<open>catch\<close>
  clause. With the timeout \<open>Infinity\<close> no timer is started and the outcome is that of
  the fetch alone; while the fetch stays pending, so does \<open>handleRequest\<close>.
\<close>

theorem network_timeout:
  "(networkTimeoutSeconds (NetworkFirst_new name options) =
      (case networkTimeoutInSeconds options of None \<Rightarrow> Num 10 | Some v \<Rightarrow> v)) \<and>
   (\<forall>n. networkTimeoutSeconds self = Num n \<longrightarrow>
      timers (snd (fetchWithTimeout self env request no_effects)) = [Num (n * 1000)] \<and>
      fst (fetchWithTimeout self env request no_effects) =
        race (fetch env request)
          (Some (setTimeout_fires env (Num (n * 1000)),
                 Inl (Error (''Network timed out after '' @ number_toString (Num n) @
                             '' seconds'')))) \<and>
      (fetch env request = None \<or>
       (\<exists>t r. fetch env request = Some (t, r) \<and> setTimeout_fires env (Num (n * 1000)) < t) \<longrightarrow>
         fst (fetchWithTimeout self env request no_effects) =
           Some (setTimeout_fires env (Num (n * 1000)),
                 Inl (Error (''Network timed out after '' @ number_toString (Num n) @
                             '' seconds''))) \<and>
         fst (handleRequest self env request) = Some (catch_block self env request))) \<and>
   (networkTimeoutSeconds self = Infinity \<longrightarrow>
      timers (snd (fetchWithTimeout self env request no_effects)) = [] \<and>
      fst (fetchWithTimeout self env request no_effects) = fetch env request \<and>
      (fetch env request = None \<longrightarrow> fst (handleRequest self env request) = None))"
proof (intro conjI allI impI)
  show "networkTimeoutSeconds (NetworkFirst_new name options) =
      (case networkTimeoutInSeconds options of None \<Rightarrow> Num 10 | Some v \<Rightarrow> v)"
    by (simp add: NetworkFirst_new_def coalesce_def)
next
  fix n
  assume n: "networkTimeoutSeconds self = Num n"
  show "timers (snd (fetchWithTimeout self env request no_effects)) = [Num (n * 1000)]"
    by (simp add: fetchWithTimeout_finite [OF n] no_effects_def)
  show r: "fst (fetchWithTimeout self env request no_effects) =
        race (fetch env request)
          (Some (setTimeout_fires env (Num (n * 1000)),
                 Inl (Error (''Network timed out after '' @ number_toString (Num n) @
                             '' seconds''))))"
    by (simp add: fetchWithTimeout_finite [OF n])
  assume first: "fetch env request = None \<or>
       (\<exists>t r. fetch env request = Some (t, r) \<and> setTimeout_fires env (Num (n * 1000)) < t)"
  show t: "fst (fetchWithTimeout self env request no_effects) =
           Some (setTimeout_fires env (Num (n * 1000)),
                 Inl (Error (''Network timed out after '' @ number_toString (Num n) @
                             '' seconds'')))"
    unfolding r by (rule race_timer_first [OF first])
  show "fst (handleRequest self env request) = Some (catch_block self env request)"
    using try_block_network_failure [OF t] by (simp add: handleRequest_catch)
next
  assume i: "networkTimeoutSeconds self = Infinity"
  show "timers (snd (fetchWithTimeout self env request no_effects)) = []"
    by (simp add: fetchWithTimeout_Infinity [OF i] no_effects_def)
  show f: "fst (fetchWithTimeout self env request no_effects) = fetch env request"
    by (simp add: fetchWithTimeout_Infinity [OF i])
  assume "fetch env request = None"
  with f have "fst (fetchWithTimeout self env request no_effects) = None" by simp
  then have "try_block self env request =
      (None, snd (fetchWithTimeout self env request no_effects))"
    by (rule try_block_pending)
  then show "fst (handleRequest self env request) = None"
    by (simp add: handleRequest_def)
qed

text \<open>
  A fetch that never settles: the default strategy times out after 10 seconds and
  serves the cached page, the strategy with an infinite timeout stays pending.
\<close>

theorem network_timeout_witness:
  "networkTimeoutSeconds default_strategy = Num 10 \<and>
   fetch (example_env None cache_with_page) page_request = None \<and>
   handleRequest default_strategy (example_env None cache_with_page) page_request =
     (Some (Inr cached_response),
      \<lparr>fetched = [page_request], timers = [Num 10000], put = []\<rparr>) \<and>
   fst (fetchWithTimeout default_strategy (example_env None cache_with_page) page_request
          no_effects) =
     Some (10000, Inl (Error ''Network timed out after 10 seconds'')) \<and>
   networkTimeoutSeconds patient_strategy = Infinity \<and>
   handleRequest patient_strategy (example_env None cache_with_page) page_request =
     (None, \<lparr>fetched = [page_request], timers = [], put = []\<rparr>)"
  using
    network_timeout [of "''pages''"
      "\<lparr>networkTimeoutInSeconds = None, cacheableResponse_opt = None\<rparr>"
      default_strategy "example_env None cache_with_page" page_request]
    network_timeout [of "''pages''"
      "\<lparr>networkTimeoutInSeconds = None, cacheableResponse_opt = None\<rparr>"
      patient_strategy "example_env None cache_with_page" page_request]
  by (simp add: example_defs method_defs)

text \<open>
  Claim C4 (the network response is returned whatever happens to the cache write)
  fails for an opaque response. The fetch resolves, before the timeout, to a response
  of status 0, which passes validation since no policy is set. \<open>putInCache\<close> then
  throws, since the \<open>Response\<close> constructor refuses the status 0 that
  \<open>addTimestampHeader\<close> passes to it; the \<open>catch\<close> clause takes over, finds nothing
  in the cache, and \<open>handleRequest\<close> rejects although a response was received.
\<close>

theorem network_response_lost:
  "fst (fetchWithTimeout default_strategy
          (example_env (Some (120, Inr opaque_response)) Map.empty) page_request no_effects) =
     Some (120, Inr opaque_response) \<and>
   validateResponse default_strategy opaque_response \<and>
   handleRequest default_strategy
       (example_env (Some (120, Inr opaque_response)) Map.empty) page_request =
     (Some (Inl (Error ''No response received from fetch: Timeout'')),
      \<lparr>fetched = [page_request], timers = [Num 10000], put = []\<rparr>)"
  by (simp add: example_defs method_defs)


text \<open>
  A fetch rejected with a \<open>TypeError\<close>: with the cached page, and with an empty
  cache.
\<close>

theorem cache_fallback_witness:
  "fst (fetchWithTimeout default_strategy
          (example_env (Some (40, Inl TypeError)) cache_with_page) page_request no_effects) =
     Some (40, Inl TypeError) \<and>
   handleRequest default_strategy
       (example_env (Some (40, Inl TypeError)) cache_with_page) page_request =
     (Some (Inr cached_response),
      \<lparr>fetched = [page_request], timers = [Num 10000], put = []\<rparr>) \<and>
   handleRequest default_strategy
       (example_env (Some (40, Inl TypeError)) Map.empty) page_request =
     (Some (Inl (Error ''No response received from fetch: Timeout'')),
      \<lparr>fetched = [page_request], timers = [Num 10000], put = []\<rparr>)"
  using
    cache_fallback [of default_strategy "example_env (Some (40, Inl TypeError)) cache_with_page"
      page_request 40 TypeError cache_with_page]
    cache_fallback [of default_strategy "example_env (Some (40, Inl TypeError)) Map.empty"
      page_request 40 TypeError Map.empty]
  by (simp add: example_defs method_defs)


text \<open>
  Claim C3 as stated fails: the error raised when network and cache are exhausted is
  not of a type \<open>NetworkFallbackError\<close>. It is an instance of the class \<open>Error\<close>, as is
  the timeout error that the same method absorbs; the two differ in their message
  only.
\<close>

theorem fallback_error_class:
  "fst (handleRequest default_strategy
          (example_env (Some (40, Inl TypeError)) Map.empty) page_request) =
     Some (Inl (Error ''No response received from fetch: Timeout'')) \<and>
   error_class (Error ''No response received from fetch: Timeout'') \<noteq> ''NetworkFallbackError'' \<and>
   fst (fetchWithTimeout default_strategy (example_env None Map.empty) page_request no_effects) =
     Some (10000, Inl (Error ''Network timed out after 10 seconds'')) \<and>
   error_class (Error ''No response received from fetch: Timeout'') =
     error_class (Error ''Network timed out after 10 seconds'')"
  by (simp add: example_defs method_defs)

end
